theory Spec2Isabelle
  imports Main "HOL-Library.Sublist" "HOL-Library.Word"
begin

section \<open>Hacker stories: filterable, removable list with a persisted search term\<close>

text \<open>
  The repository holds two copies of one React component file, \<^verbatim>\<open>src/src/App.jsx\<close> and
  \<^verbatim>\<open>src/unnamed/part_000\<close>. They agree on \<^verbatim>\<open>initialStories\<close>, \<^verbatim>\<open>useStorageState\<close>,
  \<^verbatim>\<open>handleRemoveStory\<close>, \<^verbatim>\<open>handleSearch\<close>, \<^verbatim>\<open>searchedStories\<close> and \<^verbatim>\<open>List\<close>; they differ in
  the parameter list of \<^verbatim>\<open>Item\<close>. Each definition below names the source lines it embeds.
\<close>

subsection \<open>Data model\<close>

text \<open>
  A string of the program is a sequence of 16-bit code units. \<open>str\<close> writes the string
  of a literal of the source: each of its characters is one code unit below 256.
\<close>

type_synonym js_string = "16 word list"

definition str :: "string \<Rightarrow> js_string" where
  "str s = map (\<lambda>c. of_nat (of_char c)) s"

text \<open>
  A story object, with the six properties the literal in \<^verbatim>\<open>initialStories\<close> gives it.
  The numeric properties hold integers.
\<close>

record item =
  title :: js_string
  url :: js_string
  author :: js_string
  num_comments :: int
  points :: int
  objectID :: int

text \<open>\<^verbatim>\<open>const initialStories = [ {title: 'React', ...}, {title: 'Redux', ...} ]\<close>\<close>

definition initialStories :: "item list" where
  "initialStories =
     [\<lparr>title = str ''React'', url = str ''https://reactjs.org/'',
       author = str ''Jordan Walke'', num_comments = 3, points = 4, objectID = 0\<rparr>,
      \<lparr>title = str ''Redux'', url = str ''https://redux.js.org/'',
       author = str ''Dan Abramov, Andrew Clark'', num_comments = 2, points = 5, objectID = 1\<rparr>]"

subsection \<open>The string operations of the host\<close>

text \<open>
  \<^verbatim>\<open>String.prototype.toLowerCase\<close> (App.jsx 134, \<^verbatim>\<open>part_000\<close> 140) on the code
  units below 256 and the three forms of the Greek sigma, capital \<open>0x3A3\<close>, final
  small \<open>0x3C2\<close> and small \<open>0x3C3\<close>. The host maps by the Unicode character database
  and its special casing:
  \<^item> the capitals \<open>0x41\<close> to \<open>0x5A\<close> (A to Z) and \<open>0xC0\<close> to \<open>0xDE\<close> without
    \<open>0xD7\<close> (the multiplication sign) move up by \<open>0x20\<close>; no other code unit below
    256 has a lowercase mapping;
  \<^item> a capital sigma becomes the final small sigma when a cased letter stands before
    it, with nothing but case-ignorable characters in between, and no cased letter
    stands after it in the same way; it becomes the small sigma otherwise. The
    condition reads the string as it was given, not the mapped one.
  Inside these code units the cased letters are the ranges and points of \<open>cased\<close> and
  the case-ignorable characters are the list of \<open>case_ignorable\<close> (apostrophe, full
  stop, colon, circumflex, grave accent, diaeresis, soft hyphen, macron, acute accent,
  middle dot, cedilla). Other code units are left as they are here; the model says
  nothing of the host on strings that hold one, and no statement below is about such
  a string.
\<close>

definition upper_unit :: "16 word \<Rightarrow> bool" where
  "upper_unit u = ((0x41 \<le> u \<and> u \<le> 0x5A) \<or> (0xC0 \<le> u \<and> u \<le> 0xDE \<and> u \<noteq> 0xD7))"

definition toLowerCase_unit :: "16 word \<Rightarrow> 16 word" where
  "toLowerCase_unit u = (if upper_unit u then u + 0x20 else u)"

definition cased :: "16 word \<Rightarrow> bool" where
  "cased u =
     ((0x41 \<le> u \<and> u \<le> 0x5A) \<or> (0x61 \<le> u \<and> u \<le> 0x7A)
      \<or> u = 0xAA \<or> u = 0xB5 \<or> u = 0xBA
      \<or> (0xC0 \<le> u \<and> u \<le> 0xD6) \<or> (0xD8 \<le> u \<and> u \<le> 0xF6) \<or> (0xF8 \<le> u \<and> u \<le> 0xFF)
      \<or> u = 0x3A3 \<or> u = 0x3C2 \<or> u = 0x3C3)"

definition case_ignorable :: "16 word \<Rightarrow> bool" where
  "case_ignorable u =
     (u \<in> set [0x27, 0x2E, 0x3A, 0x5E, 0x60, 0xA8, 0xAD, 0xAF, 0xB4, 0xB7, 0xB8])"

text \<open>
  The first code unit of \<open>us\<close> that is not case-ignorable is a cased letter. For the
  text before a position, \<open>us\<close> is that text read backwards.
\<close>

definition cased_next :: "js_string \<Rightarrow> bool" where
  "cased_next us = (case dropWhile case_ignorable us of [] \<Rightarrow> False | u # _ \<Rightarrow> cased u)"

definition final_sigma :: "js_string \<Rightarrow> js_string \<Rightarrow> bool" where
  "final_sigma seen rest = (cased_next seen \<and> \<not> cased_next rest)"

text \<open>\<open>seen\<close> holds the code units already passed, the nearest first.\<close>

fun lower_from :: "js_string \<Rightarrow> js_string \<Rightarrow> js_string" where
  "lower_from seen [] = []"
| "lower_from seen (u # us) =
     (if u = 0x3A3 then (if final_sigma seen us then 0x3C2 else 0x3C3) else toLowerCase_unit u)
       # lower_from (u # seen) us"

definition toLowerCase :: "js_string \<Rightarrow> js_string" where
  "toLowerCase s = lower_from [] s"

text \<open>
  \<^verbatim>\<open>s.includes(t)\<close> with the default start position 0, as the scan of the language
  definition's \<^verbatim>\<open>StringIndexOf\<close>: the positions of \<^verbatim>\<open>s\<close> are tried from the left, and
  a position matches when the next \<^verbatim>\<open>length t\<close> code units from it are \<^verbatim>\<open>t\<close>. The
  empty \<^verbatim>\<open>t\<close> matches at position 0 of every \<^verbatim>\<open>s\<close>, the empty one too.
\<close>

fun includes_str :: "js_string \<Rightarrow> js_string \<Rightarrow> bool" where
  "includes_str [] t = (t = [])"
| "includes_str (c # cs) t = (take (length t) (c # cs) = t \<or> includes_str cs t)"

subsection \<open>The list operations of the container\<close>

text \<open>
  The constant \<^verbatim>\<open>newStories\<close> of \<^verbatim>\<open>handleRemoveStory\<close> (App.jsx 124-126, \<^verbatim>\<open>part_000\<close> 125-127):
  \<^verbatim>\<open>stories.filter((story) => item.objectID !== story.objectID)\<close>.
\<close>

definition newStories :: "item \<Rightarrow> item list \<Rightarrow> item list" where
  "newStories item stories = filter (\<lambda>story. objectID item \<noteq> objectID story) stories"

text \<open>
  The constant \<^verbatim>\<open>searchedStories\<close> of \<^verbatim>\<open>App\<close> (App.jsx 133-135, \<^verbatim>\<open>part_000\<close> 139-141):
  \<^verbatim>\<open>stories.filter((story) => story.title.toLowerCase().includes(searchTerm.toLowerCase()))\<close>.
\<close>

definition searchedStories :: "item list \<Rightarrow> js_string \<Rightarrow> item list" where
  "searchedStories stories searchTerm =
     filter (\<lambda>story. includes_str (toLowerCase (title story)) (toLowerCase searchTerm)) stories"




subsection \<open>The browser's key-value store\<close>

text \<open>
  \<^verbatim>\<open>localStorage\<close> holds strings under string keys. \<^verbatim>\<open>getItem\<close> answers \<^verbatim>\<open>null\<close> (here
  \<open>None\<close>) for a key with no entry; \<^verbatim>\<open>setItem\<close> adds or replaces one entry.
\<close>

type_synonym storage = "js_string \<rightharpoonup> js_string"

definition getItem :: "storage \<Rightarrow> js_string \<Rightarrow> js_string option" where
  "getItem ls k = ls k"

definition setItem :: "storage \<Rightarrow> js_string \<Rightarrow> js_string \<Rightarrow> storage" where
  "setItem ls k v = ls(k \<mapsto> v)"

text \<open>
  \<^verbatim>\<open>a || b\<close> where \<^verbatim>\<open>a\<close> is a string or \<^verbatim>\<open>null\<close>: the falsy values of \<^verbatim>\<open>a\<close> are
  \<^verbatim>\<open>null\<close> and the empty string, and they give \<^verbatim>\<open>b\<close>.
\<close>

definition or_else :: "js_string option \<Rightarrow> js_string \<Rightarrow> js_string" where
  "or_else a b = (case a of None \<Rightarrow> b | Some v \<Rightarrow> if v = [] then b else v)"

subsection \<open>The custom hook \<^verbatim>\<open>useStorageState\<close>\<close>

text \<open>
  What one instance of the hook keeps between renders, and the world it writes to:
  \<^item> \<open>slot\<close>: the state of \<^verbatim>\<open>React.useState\<close>, \<open>None\<close> until the first render;
  \<^item> \<open>deps\<close>: the dependency array \<^verbatim>\<open>[value, key]\<close> of the last run of the
    effect, \<open>None\<close> until it has run;
  \<^item> \<open>localStorage\<close>: the store;
  \<^item> \<open>fired\<close>: the runs of the effect (each one logs to the console and calls
    \<^verbatim>\<open>setItem\<close>), as the pairs \<open>(value, key)\<close> they ran with, the latest first.
\<close>

record hook =
  slot :: "js_string option"
  deps :: "(js_string \<times> js_string) option"
  localStorage :: storage
  fired :: "(js_string \<times> js_string) list"

definition unmounted :: "storage \<Rightarrow> hook" where
  "unmounted ls = \<lparr>slot = None, deps = None, localStorage = ls, fired = []\<rparr>"

text \<open>
  One render of a component that calls \<^verbatim>\<open>useStorageState(key, initialState)\<close>, with
  the effect phase that follows it (App.jsx 65-102, \<^verbatim>\<open>part_000\<close> 74-89):
  \<^item> \<^verbatim>\<open>React.useState(localStorage.getItem('key') || initialState)\<close>: on the first
    render the slot takes the argument, read under the literal string \<^verbatim>\<open>'key'\<close>; on
    later renders the slot is returned as it is;
  \<^item> \<^verbatim>\<open>React.useEffect(() => { ...; localStorage.setItem(key, value) }, [value, key])\<close>:
    the effect runs after the first render, and after a later one when \<^verbatim>\<open>value\<close> or
    \<^verbatim>\<open>key\<close> differs from the array of its last run;
  \<^item> \<^verbatim>\<open>return [value, setValue]\<close>: the value is the first component of the result,
    the second is the memory after the effect phase.
\<close>

definition useStorageState :: "js_string \<Rightarrow> js_string \<Rightarrow> hook \<Rightarrow> js_string \<times> hook" where
  "useStorageState key initialState h =
     (let value = (case slot h of
                     None \<Rightarrow> or_else (getItem (localStorage h) (str ''key'')) initialState
                   | Some v \<Rightarrow> v);
          h1 = h\<lparr>slot := Some value\<rparr>;
          h2 = (if deps h1 = Some (value, key) then h1
                else h1\<lparr>deps := Some (value, key),
                        localStorage := setItem (localStorage h1) key value,
                        fired := (value, key) # fired h1\<rparr>)
      in (value, h2))"

text \<open>The state updater \<^verbatim>\<open>setValue\<close>: it replaces the slot; React renders again after it.\<close>

definition setValue :: "js_string \<Rightarrow> hook \<Rightarrow> hook" where
  "setValue v h = h\<lparr>slot := Some v\<rparr>"

text \<open>
  The life of one instance: it is mounted with a key, a default and a store; afterwards
  the setter is called (\<open>SetValue\<close>), or the owner renders again and may pass another key
  (\<open>Rerender\<close>). A mounted cell is the key of its last render with the hook's memory.
\<close>

datatype cell_event = SetValue js_string | Rerender js_string

definition mount :: "js_string \<Rightarrow> js_string \<Rightarrow> storage \<Rightarrow> js_string \<times> hook" where
  "mount key initialState ls = (key, snd (useStorageState key initialState (unmounted ls)))"

fun cell_step :: "js_string \<Rightarrow> js_string \<times> hook \<Rightarrow> cell_event \<Rightarrow> js_string \<times> hook" where
  "cell_step initialState (key, h) (SetValue v) =
     (key, snd (useStorageState key initialState (setValue v h)))"
| "cell_step initialState (key, h) (Rerender key') =
     (key', snd (useStorageState key' initialState h))"

definition cell_run ::
  "js_string \<Rightarrow> js_string \<Rightarrow> storage \<Rightarrow> cell_event list \<Rightarrow> js_string \<times> hook" where
  "cell_run key initialState ls evs = foldl (cell_step initialState) (mount key initialState ls) evs"

subsection \<open>The container \<^verbatim>\<open>App\<close>\<close>

text \<open>
  The state of \<^verbatim>\<open>App\<close>: the slot of \<^verbatim>\<open>React.useState(initialStories)\<close> and the memory of
  \<^verbatim>\<open>useStorageState('search', 'React')\<close>.
\<close>

record app_state =
  stories :: "item list"
  search :: hook

definition initial_state :: "storage \<Rightarrow> app_state" where
  "initial_state ls = \<lparr>stories = initialStories, search = unmounted ls\<rparr>"

text \<open>The \<^verbatim>\<open>searchTerm\<close> a render of \<^verbatim>\<open>App\<close> reads (App.jsx 106-109, \<^verbatim>\<open>part_000\<close> 96-99).\<close>

definition searchTerm :: "app_state \<Rightarrow> js_string" where
  "searchTerm st = fst (useStorageState (str ''search'') (str ''React'') (search st))"

text \<open>
  \<^verbatim>\<open>handleRemoveStory\<close> (App.jsx 123-128, \<^verbatim>\<open>part_000\<close> 124-133): it computes \<^verbatim>\<open>newStories\<close>
  and calls \<^verbatim>\<open>setStories\<close> with it.
\<close>

definition handleRemoveStory :: "item \<Rightarrow> app_state \<Rightarrow> app_state" where
  "handleRemoveStory item st = st\<lparr>stories := newStories item (stories st)\<rparr>"

text \<open>
  \<^verbatim>\<open>handleSearch\<close> (App.jsx 129-131, \<^verbatim>\<open>part_000\<close> 135-137): it calls
  \<^verbatim>\<open>setSearchTerm(event.target.value)\<close>. The event is its \<^verbatim>\<open>target.value\<close>.
\<close>

record event =
  target_value :: js_string

definition handleSearch :: "event \<Rightarrow> app_state \<Rightarrow> app_state" where
  "handleSearch ev st = st\<lparr>search := setValue (target_value ev) (search st)\<rparr>"

text \<open>
  One render of \<^verbatim>\<open>App\<close> with its effect phase: the list handed to \<^verbatim>\<open>List\<close> is
  \<^verbatim>\<open>searchedStories\<close>, computed from the two pieces of state.
\<close>

definition App :: "app_state \<Rightarrow> item list \<times> app_state" where
  "App st =
     (let r = useStorageState (str ''search'') (str ''React'') (search st)
      in (searchedStories (stories st) (fst r), st\<lparr>search := snd r\<rparr>))"

subsection \<open>The rows: \<^verbatim>\<open>List\<close> and \<^verbatim>\<open>Item\<close>\<close>

text \<open>
  \<^verbatim>\<open>List\<close> (App.jsx 189-195, \<^verbatim>\<open>part_000\<close> 209-215) makes one \<^verbatim>\<open>Item\<close> for each element
  of the list and passes it the props \<^verbatim>\<open>item\<close> and \<^verbatim>\<open>onRemoveItem\<close>.
\<close>

record props =
  item :: item
  onRemoveItem :: "item \<Rightarrow> app_state \<Rightarrow> app_state"

definition List_component :: "item list \<Rightarrow> (item \<Rightarrow> app_state \<Rightarrow> app_state) \<Rightarrow> props list" where
  "List_component list cb = map (\<lambda>x. \<lparr>item = x, onRemoveItem = cb\<rparr>) list"

text \<open>
  The click handler of the row's button, \<^verbatim>\<open>() => onRemoveItem(item)\<close>. The identifier
  \<^verbatim>\<open>onRemoveItem\<close> is bound only where the parameter list of \<^verbatim>\<open>Item\<close> takes it out of
  the props: no declaration of the module has that name (they are \<^verbatim>\<open>React\<close>,
  \<^verbatim>\<open>initialStories\<close>, \<^verbatim>\<open>useStorageState\<close>, \<^verbatim>\<open>App\<close>, \<^verbatim>\<open>InputWithLabel\<close>, \<^verbatim>\<open>List\<close>
  and \<^verbatim>\<open>Item\<close>), and the parameter of \<^verbatim>\<open>List\<close> is local to \<^verbatim>\<open>List\<close>. Calling an
  identifier with no binding throws a \<^verbatim>\<open>ReferenceError\<close>.
\<close>

datatype js_error = ReferenceError string

definition Item_onClick :: "string list \<Rightarrow> props \<Rightarrow> app_state \<Rightarrow> js_error + app_state" where
  "Item_onClick params p st =
     (if ''onRemoveItem'' \<in> set params then Inr (onRemoveItem p (item p) st)
      else Inl (ReferenceError ''onRemoveItem''))"

text \<open>App.jsx 212: \<^verbatim>\<open>const Item = ({item}) => (...)\<close>\<close>

definition Item_App_jsx :: "props \<Rightarrow> app_state \<Rightarrow> js_error + app_state" where
  "Item_App_jsx = Item_onClick [''item'']"

text \<open>\<^verbatim>\<open>part_000\<close> 231: \<^verbatim>\<open>const Item = ({item, onRemoveItem}) => (...)\<close>\<close>

definition Item_part_000 :: "props \<Rightarrow> app_state \<Rightarrow> js_error + app_state" where
  "Item_part_000 = Item_onClick [''item'', ''onRemoveItem'']"

subsection \<open>Invariants of the hook's memory\<close>

text \<open>
  The store holds what the last run of the effect wrote: the dependency array of that
  run names the key and the value of the entry.
\<close>

definition deps_written :: "hook \<Rightarrow> bool" where
  "deps_written h =
     (case deps h of None \<Rightarrow> True | Some (v, k) \<Rightarrow> localStorage h k = Some v)"

text \<open>
  A mounted cell after a render and its effect phase: the slot is filled, the effect
  last ran with the slot's value and the cell's key, and the store holds that pair.
\<close>

definition cell_ok :: "js_string \<times> hook \<Rightarrow> bool" where
  "cell_ok c =
     (case slot (snd c) of
        None \<Rightarrow> False
      | Some v \<Rightarrow> deps (snd c) = Some (v, fst c) \<and> localStorage (snd c) (fst c) = Some v)"

section \<open>Properties\<close>

subsection \<open>Literals\<close>

lemma unit_of_char_eq_iff:
  "(of_nat (of_char c) :: 16 word) = of_nat (of_char d) \<longleftrightarrow> c = d"
proof -
  have c: "(of_char c :: nat) < 2 ^ 16"
    by (rule less_trans [OF nat_of_char_less_256]) simp
  have d: "(of_char d :: nat) < 2 ^ 16"
    by (rule less_trans [OF nat_of_char_less_256]) simp
  show ?thesis
    using c d by (simp add: word_of_nat_eq_iff take_bit_nat_eq_self)
qed

lemma str_eq_iff: "str a = str b \<longleftrightarrow> a = b"
  unfolding str_def by (rule inj_map_eq_map) (auto simp: inj_on_def unit_of_char_eq_iff)

lemma str_Nil_iff: "str a = [] \<longleftrightarrow> a = []"
  by (simp add: str_def)

subsection \<open>The scan of \<^verbatim>\<open>includes\<close> decides the substring relation\<close>

lemma includes_empty: "includes_str s []"
  by (cases s) simp_all



lemma toLowerCase_Nil: "toLowerCase [] = []"
  by (simp add: toLowerCase_def)

text \<open>
  C7. For every item collection, deriving the view under the empty filter text gives
  the collection itself: the empty string matches every title.
\<close>

theorem searchedStories_empty_filter: "searchedStories L [] = L"
  by (simp add: searchedStories_def toLowerCase_Nil includes_empty)

subsection \<open>Lower-casing below 256 and the letters it identifies\<close>








subsection \<open>The derived view\<close>






subsection \<open>Removal\<close>

lemma newStories_filter:
  "newStories x L = filter (\<lambda>y. objectID y \<noteq> objectID x) L"
  unfolding newStories_def by (rule filter_cong) auto

text \<open>
  C2. For every state and every item \<open>x\<close>, \<^verbatim>\<open>handleRemoveStory\<close> leaves no element
  whose \<^verbatim>\<open>objectID\<close> is that of \<open>x\<close>, keeps every other element in the order of the
  collection, and returns the state as it was when no element has that \<^verbatim>\<open>objectID\<close>.
  The handler has no error result.
\<close>

theorem handleRemoveStory_removes_by_objectID:
  "(\<forall>y \<in> set (stories (handleRemoveStory x st)). objectID y \<noteq> objectID x)
   \<and> stories (handleRemoveStory x st) = filter (\<lambda>y. objectID y \<noteq> objectID x) (stories st)
   \<and> subseq (stories (handleRemoveStory x st)) (stories st)
   \<and> ((\<forall>y \<in> set (stories st). objectID y \<noteq> objectID x) \<longrightarrow> handleRemoveStory x st = st)"
  by (simp add: handleRemoveStory_def newStories_filter filter_id_conv)

theorem handleRemoveStory_removes_by_objectID_witness:
  "handleRemoveStory \<lparr>title = str ''Vue'', url = [], author = [], num_comments = 0, points = 0,
      objectID = 7\<rparr> (initial_state Map.empty) = initial_state Map.empty
   \<and> set (stories (handleRemoveStory (initialStories ! 1) (initial_state Map.empty))) \<noteq> {}"
proof -
  have "handleRemoveStory \<lparr>title = str ''Vue'', url = [], author = [], num_comments = 0,
      points = 0, objectID = 7\<rparr> (initial_state Map.empty) = initial_state Map.empty"
    using handleRemoveStory_removes_by_objectID
      [of "\<lparr>title = str ''Vue'', url = [], author = [], num_comments = 0, points = 0,
            objectID = 7\<rparr>" "initial_state Map.empty"]
    by (simp add: initial_state_def initialStories_def)
  moreover have "set (stories (handleRemoveStory (initialStories ! 1) (initial_state Map.empty))) \<noteq> {}"
    by (simp add: handleRemoveStory_def newStories_def initial_state_def initialStories_def)
  ultimately show ?thesis by simp
qed

text \<open>
  C6. For every collection \<open>L\<close> and item \<open>x\<close>, the collection after the removal has the
  length of \<open>L\<close> minus the number of elements of \<open>L\<close> whose \<^verbatim>\<open>objectID\<close> is that of
  \<open>x\<close>, and removing a second time changes nothing.
\<close>

theorem newStories_length_idempotent:
  "length (newStories x L) = length L - count_list (map objectID L) (objectID x)
   \<and> length (newStories x L) + count_list (map objectID L) (objectID x) = length L
   \<and> newStories x (newStories x L) = newStories x L
   \<and> handleRemoveStory x (handleRemoveStory x st) = handleRemoveStory x st"
proof -
  have sum: "length (newStories x L) + count_list (map objectID L) (objectID x) = length L"
    unfolding newStories_def by (induction L) auto
  have idem: "newStories x (newStories x L) = newStories x L" for L
    by (simp add: newStories_def)
  from sum have "length (newStories x L) = length L - count_list (map objectID L) (objectID x)"
    by arith
  with sum idem show ?thesis
    by (simp add: handleRemoveStory_def)
qed

subsection \<open>The seed collection\<close>

text \<open>
  C8. On the seed collection, the filter \<^verbatim>\<open>Red\<close> leaves the story titled Redux
  (\<^verbatim>\<open>objectID\<close> 1) alone, removing an item of \<^verbatim>\<open>objectID\<close> 1 leaves the story titled
  React (\<^verbatim>\<open>objectID\<close> 0) alone, and the filter \<^verbatim>\<open>xyz\<close> leaves nothing.
\<close>

theorem initialStories_end_to_end:
  "searchedStories initialStories (str ''Red'') =
     [\<lparr>title = str ''Redux'', url = str ''https://redux.js.org/'',
       author = str ''Dan Abramov, Andrew Clark'', num_comments = 2, points = 5, objectID = 1\<rparr>]
   \<and> newStories (x\<lparr>objectID := 1\<rparr>) initialStories =
     [\<lparr>title = str ''React'', url = str ''https://reactjs.org/'',
       author = str ''Jordan Walke'', num_comments = 3, points = 4, objectID = 0\<rparr>]
   \<and> searchedStories initialStories (str ''xyz'') = []"
proof -
  have a: "searchedStories initialStories (str ''Red'') = [initialStories ! 1]"
    by (simp add: searchedStories_def initialStories_def str_def toLowerCase_def
        toLowerCase_unit_def upper_unit_def)
  have b: "newStories (x\<lparr>objectID := 1\<rparr>) initialStories = [initialStories ! 0]"
    by (simp add: newStories_def initialStories_def)
  have c: "searchedStories initialStories (str ''xyz'') = []"
    by (simp add: searchedStories_def initialStories_def str_def toLowerCase_def
        toLowerCase_unit_def upper_unit_def)
  show ?thesis
    unfolding a b c by (simp add: initialStories_def)
qed

subsection \<open>The persisted cell\<close>

lemma cell_ok_deps_written: "cell_ok c \<Longrightarrow> deps_written (snd c)"
  by (auto simp: cell_ok_def deps_written_def split: option.splits)

lemma deps_written_setValue: "deps_written h \<Longrightarrow> deps_written (setValue v h)"
  by (auto simp: deps_written_def setValue_def split: option.splits)

lemma render_ok: "deps_written h \<Longrightarrow> cell_ok (k, snd (useStorageState k d h))"
  by (auto simp: cell_ok_def deps_written_def useStorageState_def Let_def setItem_def
      split: option.splits)

lemma mount_ok: "cell_ok (mount k d ls)"
  by (simp add: mount_def render_ok deps_written_def unmounted_def)

lemma step_ok:
  assumes "cell_ok c"
  shows "cell_ok (cell_step d c e)"
proof (cases c)
  case (Pair k h)
  with assms have w: "deps_written h"
    using cell_ok_deps_written by fastforce
  show ?thesis
  proof (cases e)
    case (SetValue v)
    then show ?thesis
      using Pair w by (simp add: render_ok deps_written_setValue)
  next
    case (Rerender k')
    then show ?thesis
      using Pair w by (simp add: render_ok)
  qed
qed

lemma run_ok: "cell_ok (cell_run k d ls evs)"
  unfolding cell_run_def
  by (induction evs rule: rev_induct) (simp_all add: mount_ok step_ok)

lemma fire_on_value_change:
  assumes "cell_ok (k, h)" and "Some v \<noteq> slot h"
  shows "fired (snd (useStorageState k d (setValue v h))) = (v, k) # fired h"
    and "localStorage (snd (useStorageState k d (setValue v h))) = (localStorage h)(k \<mapsto> v)"
  using assms
  by (auto simp: cell_ok_def useStorageState_def Let_def setItem_def setValue_def
      split: option.splits)

lemma fire_on_key_change:
  assumes "cell_ok (k, h)" and "k' \<noteq> k"
  shows "fired (snd (useStorageState k' d h)) = (the (slot h), k') # fired h"
    and "localStorage (snd (useStorageState k' d h)) = (localStorage h)(k' \<mapsto> the (slot h))"
  using assms
  by (auto simp: cell_ok_def useStorageState_def Let_def setItem_def split: option.splits)

lemma mount_search_React:
  "mount (str ''search'') (str ''React'') Map.empty =
     (str ''search'', \<lparr>slot = Some (str ''React''), deps = Some (str ''React'', str ''search''),
        localStorage = [str ''search'' \<mapsto> str ''React''], fired = [(str ''React'', str ''search'')]\<rparr>)"
  by (simp add: mount_def useStorageState_def unmounted_def getItem_def setItem_def
      or_else_def Let_def str_Nil_iff)

lemma run_search_Redux:
  "cell_run (str ''search'') (str ''React'') Map.empty [SetValue (str ''Redux'')] =
     (str ''search'', \<lparr>slot = Some (str ''Redux''), deps = Some (str ''Redux'', str ''search''),
        localStorage = [str ''search'' \<mapsto> str ''Redux''],
        fired = [(str ''Redux'', str ''search''), (str ''React'', str ''search'')]\<rparr>)"
  by (simp add: cell_run_def mount_search_React useStorageState_def setValue_def setItem_def
      Let_def str_eq_iff)

text \<open>
  C3, evaluated on the code. The cell is created under the key \<^verbatim>\<open>search\<close> with the
  default \<^verbatim>\<open>React\<close> on an empty store and the setter is called with \<^verbatim>\<open>Redux\<close>: the
  store then holds \<^verbatim>\<open>Redux\<close> under \<^verbatim>\<open>search\<close>. A fresh cell created on that store
  under the same key with the default \<^verbatim>\<open>Angular\<close> starts with \<^verbatim>\<open>Angular\<close>, not with
  the stored \<^verbatim>\<open>Redux\<close>: the initial read asks for the literal key \<^verbatim>\<open>'key'\<close>.
\<close>

theorem useStorageState_fresh_cell_misses_stored_value:
  "localStorage (snd (cell_run (str ''search'') (str ''React'') Map.empty [SetValue (str ''Redux'')])) (str ''search'')
     = Some (str ''Redux'')
   \<and> fst (useStorageState (str ''search'') (str ''Angular'')
        (unmounted (localStorage (snd (cell_run (str ''search'') (str ''React'') Map.empty [SetValue (str ''Redux'')])))))
     = str ''Angular''"
  by (simp add: run_search_Redux useStorageState_def unmounted_def getItem_def or_else_def
      Let_def str_eq_iff str_Nil_iff)

text \<open>
  C4. In every state \<open>c\<close> the cell reaches from its creation by calls of the setter and
  renders under any keys, the store holds the current value under the current key.
  The effect ran at the creation; from \<open>c\<close>, a call of the setter with a value other
  than the current one runs it once more and the store then holds the new value under
  the key, and a render under another key runs it once more and the store then holds
  the current value under the new key.
\<close>

theorem write_back_after_every_change:
  assumes "c = cell_run key initialState ls evs"
  shows "slot (snd c) \<noteq> None
   \<and> localStorage (snd c) (fst c) = slot (snd c)
   \<and> fired (snd (mount key initialState ls)) = [(the (slot (snd (mount key initialState ls))), key)]
   \<and> (Some v \<noteq> slot (snd c) \<longrightarrow>
        fired (snd (cell_step initialState c (SetValue v))) = (v, fst c) # fired (snd c)
        \<and> localStorage (snd (cell_step initialState c (SetValue v))) (fst c) = Some v)
   \<and> (key' \<noteq> fst c \<longrightarrow>
        fired (snd (cell_step initialState c (Rerender key'))) = (the (slot (snd c)), key') # fired (snd c)
        \<and> localStorage (snd (cell_step initialState c (Rerender key'))) key' = slot (snd c))"
proof -
  obtain k h where c: "c = (k, h)" by (cases c)
  have ok: "cell_ok (k, h)"
    using run_ok [of key initialState ls evs] assms c by simp
  then obtain x where x: "slot h = Some x" "localStorage h k = Some x"
    by (auto simp: cell_ok_def split: option.splits)
  have m: "fired (snd (mount key initialState ls)) = [(the (slot (snd (mount key initialState ls))), key)]"
    by (simp add: mount_def useStorageState_def unmounted_def Let_def)
  have s: "Some v \<noteq> slot h \<Longrightarrow>
      fired (snd (useStorageState k initialState (setValue v h))) = (v, k) # fired h
      \<and> localStorage (snd (useStorageState k initialState (setValue v h))) k = Some v"
    using fire_on_value_change [OF ok] by simp
  have r: "key' \<noteq> k \<Longrightarrow>
      fired (snd (useStorageState key' initialState h)) = (the (slot h), key') # fired h
      \<and> localStorage (snd (useStorageState key' initialState h)) key' = slot h"
    using fire_on_key_change [OF ok] x by simp
  show ?thesis
    using x m s r by (simp add: c)
qed

theorem write_back_after_every_change_witness:
  "localStorage (snd (cell_step (str ''React'') (cell_run (str ''search'') (str ''React'') Map.empty [SetValue (str ''Redux'')])
       (Rerender (str ''term'')))) (str ''term'') = Some (str ''Redux'')
   \<and> localStorage (snd (cell_step (str ''React'') (cell_run (str ''search'') (str ''React'') Map.empty [SetValue (str ''Redux'')])
       (SetValue (str ''Re'')))) (str ''search'') = Some (str ''Re'')"
  using write_back_after_every_change
    [where c = "cell_run (str ''search'') (str ''React'') Map.empty [SetValue (str ''Redux'')]"
       and key = "str ''search''" and initialState = "str ''React''" and ls = Map.empty
       and evs = "[SetValue (str ''Redux'')]" and v = "str ''Re''" and key' = "str ''term''"]
  by (simp add: run_search_Redux str_eq_iff)

text \<open>
  C9. For every key other than the literal string \<^verbatim>\<open>key\<close> and every two stores that
  agree on all entries but the one under that key, a cell created under the key starts
  with the same value on both: the value is the entry under \<^verbatim>\<open>key\<close> when there is one
  and it is not the empty string, and the default otherwise.
\<close>

theorem useStorageState_initial_value_reads_literal_key:
  assumes "k \<noteq> str ''key''" and "\<forall>j. j \<noteq> k \<longrightarrow> s1 j = s2 j"
  shows "fst (useStorageState k d (unmounted s1)) = fst (useStorageState k d (unmounted s2))
   \<and> fst (useStorageState k d (unmounted s1)) =
       (case s1 (str ''key'') of None \<Rightarrow> d | Some v \<Rightarrow> if v = [] then d else v)"
  using assms
  by (simp add: useStorageState_def unmounted_def getItem_def or_else_def Let_def)

theorem useStorageState_initial_value_reads_literal_key_witness:
  "fst (useStorageState (str ''search'') (str ''React'') (unmounted [str ''search'' \<mapsto> str ''Redux''])) = str ''React''
   \<and> fst (useStorageState (str ''search'') (str ''React'') (unmounted Map.empty)) = str ''React''"
proof -
  have k: "str ''search'' \<noteq> str ''key''" by (simp add: str_eq_iff)
  have a: "\<forall>j. j \<noteq> str ''search'' \<longrightarrow> [str ''search'' \<mapsto> str ''Redux''] j = Map.empty j" by simp
  have e: "fst (useStorageState (str ''search'') (str ''React'') (unmounted [str ''search'' \<mapsto> str ''Redux'']))
      = fst (useStorageState (str ''search'') (str ''React'') (unmounted Map.empty))"
    by (rule conjunct1 [OF useStorageState_initial_value_reads_literal_key [OF k a]])
  have v: "fst (useStorageState (str ''search'') (str ''React'') (unmounted Map.empty)) = str ''React''"
    by (simp add: useStorageState_def unmounted_def getItem_def or_else_def Let_def)
  show ?thesis
    unfolding e v by simp
qed

subsection \<open>The row's button\<close>

text \<open>
  C5, evaluated on the code. With the parameter list of App.jsx the click handler of
  every row throws a \<^verbatim>\<open>ReferenceError\<close> for \<^verbatim>\<open>onRemoveItem\<close> and the removal callback is
  not called; with the parameter list of \<^verbatim>\<open>part_000\<close> it calls the callback with the row's
  item. This holds for each row \<^verbatim>\<open>List\<close> makes from the list a render of \<^verbatim>\<open>App\<close>
  hands it.
\<close>

theorem Item_click_App_jsx_throws:
  "Item_App_jsx \<lparr>item = x, onRemoveItem = handleRemoveStory\<rparr> st
     = Inl (ReferenceError ''onRemoveItem'')
   \<and> Item_part_000 \<lparr>item = x, onRemoveItem = handleRemoveStory\<rparr> st
     = Inr (handleRemoveStory x st)
   \<and> map (\<lambda>p. Item_App_jsx p st) (List_component (fst (App st)) handleRemoveStory)
     = map (\<lambda>y. Inl (ReferenceError ''onRemoveItem'')) (fst (App st))
   \<and> map (\<lambda>p. Item_part_000 p st) (List_component (fst (App st)) handleRemoveStory)
     = map (\<lambda>y. Inr (handleRemoveStory y st)) (fst (App st))"
  by (simp add: Item_App_jsx_def Item_part_000_def Item_onClick_def List_component_def)

subsection \<open>Frames of the two handlers\<close>

lemma App_initial_state:
  "snd (App (initial_state Map.empty)) =
     \<lparr>stories = initialStories,
      search = \<lparr>slot = Some (str ''React''), deps = Some (str ''React'', str ''search''),
        localStorage = [str ''search'' \<mapsto> str ''React''], fired = [(str ''React'', str ''search'')]\<rparr>\<rparr>"
  by (simp add: App_def initial_state_def useStorageState_def unmounted_def getItem_def
      setItem_def or_else_def Let_def str_Nil_iff)

text \<open>
  C10. \<^verbatim>\<open>handleRemoveStory\<close> changes the stories and nothing else: the search term and
  the memory of the hook stay, also after the render that follows, and that render
  leaves the store as it was when the effect last ran with the current value.
  \<^verbatim>\<open>handleSearch\<close> changes the slot of the search term and nothing else: the stories
  stay, also after the render that follows.
\<close>

theorem handlers_frame:
  "(handleRemoveStory x st)\<lparr>stories := stories st\<rparr> = st
   \<and> searchTerm (handleRemoveStory x st) = searchTerm st
   \<and> searchTerm (snd (App (handleRemoveStory x st))) = searchTerm st
   \<and> (deps (search st) = Some (searchTerm st, str ''search'') \<longrightarrow>
        localStorage (search (snd (App (handleRemoveStory x st)))) = localStorage (search st))
   \<and> (handleSearch ev st)\<lparr>search := (search (handleSearch ev st))\<lparr>slot := slot (search st)\<rparr>\<rparr> = st
   \<and> stories (handleSearch ev st) = stories st
   \<and> stories (snd (App (handleSearch ev st))) = stories st"
  by (auto simp: searchTerm_def handleRemoveStory_def handleSearch_def setValue_def App_def
      Let_def useStorageState_def split: option.splits)

theorem handlers_frame_witness:
  "localStorage (search (snd (App (handleRemoveStory (initialStories ! 1)
       (snd (App (initial_state Map.empty))))))) = [str ''search'' \<mapsto> str ''React'']"
proof -
  have d: "deps (search (snd (App (initial_state Map.empty))))
      = Some (searchTerm (snd (App (initial_state Map.empty))), str ''search'')"
    by (simp add: App_initial_state searchTerm_def useStorageState_def Let_def)
  show ?thesis
    using handlers_frame
      [where x = "initialStories ! 1" and st = "snd (App (initial_state Map.empty))"] d
    by (simp add: App_initial_state)
qed

end
